theory Spec2Isabelle
  imports Complex_Main
begin

section \<open>The snakeplane plugin factory: data model\<close>

text \<open>
  The factory of \<^verbatim>\<open>plugin_factory.py\<close> wraps user callbacks into the entry points
  that the host engine calls on a plugin (\<^verbatim>\<open>pi_*\<close>) and on its incoming interfaces
  (\<^verbatim>\<open>ii_*\<close>). The wrappers mutate the plugin and its interfaces; here the plugin is a
  record that is passed in and returned, the interfaces are the list it owns, and an
  interface handle is the position in that list (a handle outside the list does not
  exist in the source; updates through such a handle change nothing here).

  Calls to user callbacks and to collaborators that are not part of the factory
  (anchors, output flushing, the logger) are recorded, in order, in the field
  \<open>trace\<close>.
\<close>

datatype error =
    ExpatError
  | KeyError string
  | AssertionError string

datatype ('a, 's) outcome =
    Returned 'a 's
  | Raised error 's

fun state_of :: "('a, 's) outcome \<Rightarrow> 's" where
  "state_of (Returned v s) = s"
| "state_of (Raised e s) = s"

text \<open>The tree that \<^verbatim>\<open>xmltodict.parse\<close> returns: text, an ordered dictionary, or nothing.\<close>

datatype xml =
    Null
  | Text string
  | Dict "(string \<times> xml) list"

datatype 'r event =
    SaveOutputAnchorRefs
  | UserInit
  | UserAddIncoming string string
  | UserAddOutgoing string
  | UserPushAllRecords int
  | UserIiInit nat
  | UserUpdateProgress nat real
  | UpdateProgress real
  | UserClose
  | CloseAllOutputs
  | BuildMetadata
  | ProcessData "(string \<times> 'r list) list"
  | PushMetadata string
  | PushAllOutputRecords
  | LogError string

record ('r, 'm) interface =
  anchor :: string
  record_info_in :: "'m option"
  ii_initialized :: bool
  completed :: bool
  accumulated :: "'r list"

record ('r, 'm) plugin =
  initialized :: bool
  update_only_mode :: bool
  workflow_config :: "xml option"
  required_input_names :: "string list"
  output_anchors :: "string list"
  interfaces :: "('r, 'm) interface list"
  trace :: "'r event list"

datatype mode = Batch | Stream | Source

definition log :: "'r event \<Rightarrow> ('r, 'm) plugin \<Rightarrow> ('r, 'm) plugin" where
  "log e p = p\<lparr>trace := trace p @ [e]\<rparr>"

definition upd_iface ::
  "nat \<Rightarrow> (('r, 'm) interface \<Rightarrow> ('r, 'm) interface) \<Rightarrow> ('r, 'm) plugin \<Rightarrow> ('r, 'm) plugin" where
  "upd_iface i f p =
     (if i < length (interfaces p)
      then p\<lparr>interfaces := (interfaces p)[i := f (interfaces p ! i)]\<rparr>
      else p)"

section \<open>Helpers of the plugin classes\<close>

text \<open>
  Modelled from the spec: the constructor of \<^verbatim>\<open>AyxPluginInterface\<close> (module
  \<^verbatim>\<open>helper_classes\<close>). A ConnectionInterface starts with no schema, not initialized,
  not completed and an empty accumulation buffer.
\<close>

definition plugin_interface :: "string \<Rightarrow> ('r, 'm) interface" where
  "plugin_interface str_type =
     \<lparr>anchor = str_type, record_info_in = None, ii_initialized = False,
      completed = False, accumulated = []\<rparr>"

text \<open>
  Modelled from the spec: \<^verbatim>\<open>AyxPlugin.save_interface\<close>, which registers the new
  interface with the node.
\<close>

definition save_interface :: "('r, 'm) interface \<Rightarrow> ('r, 'm) plugin \<Rightarrow> ('r, 'm) plugin" where
  "save_interface x p = p\<lparr>interfaces := interfaces p @ [x]\<rparr>"

text \<open>
  Modelled from the spec: the property \<^verbatim>\<open>AyxPlugin.all_inputs_completed\<close>, which holds
  iff every currently registered interface has \<open>completed = true\<close>.
\<close>

definition all_inputs_completed :: "('r, 'm) plugin \<Rightarrow> bool" where
  "all_inputs_completed p = list_all completed (interfaces p)"

text \<open>
  Modelled from the spec: the property \<^verbatim>\<open>AyxPlugin.all_required_inputs_initialized\<close>:
  every interface of a required input anchor has negotiated its metadata.
\<close>

definition all_required_inputs_initialized :: "('r, 'm) plugin \<Rightarrow> bool" where
  "all_required_inputs_initialized p =
     list_all (\<lambda>x. anchor x \<in> set (required_input_names p) \<longrightarrow> ii_initialized x)
       (interfaces p)"

text \<open>
  Modelled from the spec: \<^verbatim>\<open>AyxPlugin.clear_accumulated_records\<close> empties the
  accumulation buffer of every interface of the node.
\<close>

definition clear_accumulated_records :: "('r, 'm) plugin \<Rightarrow> ('r, 'm) plugin" where
  "clear_accumulated_records p =
     p\<lparr>interfaces := map (\<lambda>x. x\<lparr>accumulated := []\<rparr>) (interfaces p)\<rparr>"

text \<open>
  Modelled from the spec: \<^verbatim>\<open>AyxPluginInterface.accumulate_record\<close> appends the record
  to the buffer of the interface.
\<close>

definition accumulate_record :: "nat \<Rightarrow> 'r \<Rightarrow> ('r, 'm) plugin \<Rightarrow> ('r, 'm) plugin" where
  "accumulate_record i in_record p =
     upd_iface i (\<lambda>x. x\<lparr>accumulated := accumulated x @ [in_record]\<rparr>) p"

text \<open>
  Modelled from the spec: the collaborators \<^verbatim>\<open>save_output_anchor_refs\<close>,
  \<^verbatim>\<open>push_all_output_records\<close> (the flush of the buffered output records),
  \<^verbatim>\<open>close_all_outputs\<close> and \<^verbatim>\<open>update_progress\<close> act on the host only; the model
  records that they ran.
\<close>

definition save_output_anchor_refs :: "('r, 'm) plugin \<Rightarrow> ('r, 'm) plugin" where
  "save_output_anchor_refs p = log SaveOutputAnchorRefs p"

definition push_all_output_records :: "('r, 'm) plugin \<Rightarrow> ('r, 'm) plugin" where
  "push_all_output_records p = log PushAllOutputRecords p"

definition close_all_outputs :: "('r, 'm) plugin \<Rightarrow> ('r, 'm) plugin" where
  "close_all_outputs p = log CloseAllOutputs p"

definition update_progress :: "real \<Rightarrow> ('r, 'm) plugin \<Rightarrow> ('r, 'm) plugin" where
  "update_progress d p = log (UpdateProgress d) p"

text \<open>
  The loop \<^verbatim>\<open>for _, anchor in output_anchors.items(): anchor.push_metadata(plugin)\<close>.
\<close>

definition push_metadata_all :: "('r, 'm) plugin \<Rightarrow> ('r, 'm) plugin" where
  "push_metadata_all p = foldl (\<lambda>q a. log (PushMetadata a) q) p (output_anchors p)"

section \<open>User callbacks\<close>

text \<open>
  The user's functions are opaque to the factory. The transformation registered with
  \<^verbatim>\<open>process_data\<close> and the metadata hook registered with \<^verbatim>\<open>build_metadata\<close> are
  modelled as callbacks that return normally and leave the framework's own fields alone;
  the transformation's trace entry keeps what it could read at that moment: the
  accumulation buffer of every interface, by anchor name.
\<close>

definition visible :: "('r, 'm) plugin \<Rightarrow> (string \<times> 'r list) list" where
  "visible p = map (\<lambda>x. (anchor x, accumulated x)) (interfaces p)"

definition user_build_metadata :: "('r, 'm) plugin \<Rightarrow> ('r, 'm) plugin" where
  "user_build_metadata p = log BuildMetadata p"

definition user_process_data :: "('r, 'm) plugin \<Rightarrow> ('r, 'm) plugin" where
  "user_process_data p = log (ProcessData (visible p)) p"

section \<open>The wrappers built by the factory\<close>

text \<open>
  \<^verbatim>\<open>wrap_pi_init\<close>. The parser \<^verbatim>\<open>xmltodict.parse\<close> is a library outside the
  repository and is a parameter: it raises (\<open>Inl\<close>) or returns the dictionary of the
  document. The subscript \<^verbatim>\<open>["Configuration"]\<close> raises \<^verbatim>\<open>KeyError\<close> on a document with
  another root. There is no exception handler in the wrapper.
\<close>

definition wrap_pi_init ::
  "(string \<Rightarrow> error + (string \<times> xml) list) \<Rightarrow>
   (('r, 'm) plugin \<Rightarrow> bool \<times> ('r, 'm) plugin) \<Rightarrow>
   ('r, 'm) plugin \<Rightarrow> string \<Rightarrow> (bool, ('r, 'm) plugin) outcome" where
  "wrap_pi_init parse func current_plugin config_xml =
     (let p1 = save_output_anchor_refs current_plugin in
      case parse config_xml of
        Inl e \<Rightarrow> Raised e p1
      | Inr d \<Rightarrow>
          (case map_of d ''Configuration'' of
             None \<Rightarrow> Raised (KeyError ''Configuration'') p1
           | Some cfg \<Rightarrow>
               (let p2 = p1\<lparr>workflow_config := Some cfg\<rparr>;
                    (val, p3) = func p2
                in Returned val (p3\<lparr>initialized := val\<rparr>))))"

definition wrap_pi_add_incoming_connection ::
  "(('r, 'm) plugin \<Rightarrow> string \<Rightarrow> string \<Rightarrow> 'a \<times> ('r, 'm) plugin) \<Rightarrow>
   ('r, 'm) plugin \<Rightarrow> string \<Rightarrow> string \<Rightarrow> (nat, ('r, 'm) plugin) outcome" where
  "wrap_pi_add_incoming_connection func current_plugin str_type str_name =
     (let (_, p1) = func current_plugin str_type str_name
      in Returned (length (interfaces p1)) (save_interface (plugin_interface str_type) p1))"

definition wrap_push_all_records ::
  "(('r, 'm) plugin \<Rightarrow> int \<Rightarrow> 'a \<times> ('r, 'm) plugin) \<Rightarrow>
   ('r, 'm) plugin \<Rightarrow> int \<Rightarrow> (bool, ('r, 'm) plugin) outcome" where
  "wrap_push_all_records func current_plugin n_record_limit =
     (if update_only_mode current_plugin then Returned True current_plugin
      else if length (required_input_names current_plugin) = 0
      then Returned True (snd (func current_plugin n_record_limit))
      else Raised (AssertionError ''Missing Incoming Connection(s)'')
             (log (LogError ''Missing Incoming Connection(s)'') current_plugin))"

definition wrap_pi_add_outgoing_connection ::
  "(('r, 'm) plugin \<Rightarrow> string \<Rightarrow> 'a \<times> ('r, 'm) plugin) \<Rightarrow>
   ('r, 'm) plugin \<Rightarrow> string \<Rightarrow> ('a, ('r, 'm) plugin) outcome" where
  "wrap_pi_add_outgoing_connection func current_plugin str_name =
     (let (v, p1) = func current_plugin str_name in Returned v p1)"

definition wrap_pi_close ::
  "(('r, 'm) plugin \<Rightarrow> 'a \<times> ('r, 'm) plugin) \<Rightarrow>
   ('r, 'm) plugin \<Rightarrow> bool \<Rightarrow> (unit, ('r, 'm) plugin) outcome" where
  "wrap_pi_close func current_plugin b_has_errors =
     (if all_inputs_completed current_plugin
      then Returned () (close_all_outputs (snd (func current_plugin)))
      else Returned () current_plugin)"

text \<open>
  \<^verbatim>\<open>wrap_ii_init\<close>. The column metadata that the wrapper stores in
  \<^verbatim>\<open>anchor_metadata\<close> is computed from \<^verbatim>\<open>record_info_in\<close> alone (by
  \<^verbatim>\<open>interface_utils.get_column_metadata\<close>) and read by no wrapper, so the model
  keeps \<^verbatim>\<open>record_info_in\<close> only. In update-only mode the wrapper calls the user's
  metadata hook directly, not through \<^verbatim>\<open>build_metadata\<close> of \<^verbatim>\<open>process_data\<close>.
\<close>

definition wrap_ii_init ::
  "(('r, 'm) plugin \<Rightarrow> nat \<Rightarrow> 'm \<Rightarrow> bool \<times> ('r, 'm) plugin) \<Rightarrow>
   ('r, 'm) plugin \<Rightarrow> nat \<Rightarrow> 'm \<Rightarrow> (bool, ('r, 'm) plugin) outcome" where
  "wrap_ii_init func current_plugin current_interface record_info =
     (let p1 = upd_iface current_interface
                 (\<lambda>x. x\<lparr>record_info_in := Some record_info, ii_initialized := True\<rparr>)
                 current_plugin;
          (init_success, p2) = func p1 current_interface record_info
      in if \<not> init_success
         then Returned False
                (upd_iface current_interface (\<lambda>x. x\<lparr>ii_initialized := False\<rparr>)
                   (p2\<lparr>initialized := False\<rparr>))
         else if update_only_mode p2 \<and> all_required_inputs_initialized p2
         then Returned True (push_metadata_all (user_build_metadata p2))
         else Returned True p2)"

definition wrap_ii_push_record ::
  "(('r, 'm) plugin \<Rightarrow> nat \<Rightarrow> 'r \<Rightarrow> 'a \<times> ('r, 'm) plugin) \<Rightarrow>
   ('r, 'm) plugin \<Rightarrow> nat \<Rightarrow> 'r \<Rightarrow> (bool, ('r, 'm) plugin) outcome" where
  "wrap_ii_push_record func current_plugin current_interface in_record =
     (if \<not> initialized current_plugin \<or> update_only_mode current_plugin
      then Returned False current_plugin
      else Returned True (snd (func current_plugin current_interface in_record)))"

definition wrap_ii_update_progress ::
  "(('r, 'm) plugin \<Rightarrow> nat \<Rightarrow> real \<Rightarrow> 'a \<times> ('r, 'm) plugin) \<Rightarrow>
   ('r, 'm) plugin \<Rightarrow> nat \<Rightarrow> real \<Rightarrow> ('a, ('r, 'm) plugin) outcome" where
  "wrap_ii_update_progress func current_plugin current_interface d_percentage =
     (let (v, p1) = func (update_progress d_percentage current_plugin)
                      current_interface d_percentage
      in Returned v p1)"

text \<open>\<^verbatim>\<open>wrap_ii_close\<close>; \<open>None\<close> is the bare \<^verbatim>\<open>return\<close> of update-only mode.\<close>

definition wrap_ii_close ::
  "(('r, 'm) plugin \<Rightarrow> 'a \<times> ('r, 'm) plugin) \<Rightarrow>
   ('r, 'm) plugin \<Rightarrow> nat \<Rightarrow> ('a option, ('r, 'm) plugin) outcome" where
  "wrap_ii_close func current_plugin current_interface =
     (if update_only_mode current_plugin then Returned None current_plugin
      else (let (v, p1) = func (upd_iface current_interface (\<lambda>x. x\<lparr>completed := True\<rparr>)
                                  current_plugin)
            in Returned (Some v) p1))"

section \<open>The strategies of \<^verbatim>\<open>process_data\<close>\<close>

definition build_metadata :: "('r, 'm) plugin \<Rightarrow> ('r, 'm) plugin" where
  "build_metadata p = (if \<not> update_only_mode p then user_build_metadata p else p)"

definition batch_ii_close :: "('r, 'm) plugin \<Rightarrow> unit \<times> ('r, 'm) plugin" where
  "batch_ii_close p =
     (if \<not> initialized p then ((), p)
      else if all_inputs_completed p
      then ((), push_all_output_records
                  (push_metadata_all (user_process_data (build_metadata p))))
      else ((), p))"

definition stream_ii_push_record ::
  "('r, 'm) plugin \<Rightarrow> nat \<Rightarrow> 'r \<Rightarrow> unit \<times> ('r, 'm) plugin" where
  "stream_ii_push_record p current_interface in_record =
     (if \<not> initialized p then ((), p)
      else ((), push_all_output_records
                  (push_metadata_all
                     (user_process_data
                        (build_metadata
                           (accumulate_record current_interface in_record
                              (clear_accumulated_records p)))))))"

definition source_pi_push_all_records ::
  "('r, 'm) plugin \<Rightarrow> int \<Rightarrow> unit \<times> ('r, 'm) plugin" where
  "source_pi_push_all_records p n_record_limit =
     ((), push_all_output_records
            (push_metadata_all (user_process_data (build_metadata p))))"

text \<open>
  What \<^verbatim>\<open>process_data(mode)\<close> registers for each entry point; an entry point that the
  mode does not replace keeps the default of the constructor (a callback without effect).
\<close>

definition batch_ii_push_record ::
  "('r, 'm) plugin \<Rightarrow> nat \<Rightarrow> 'r \<Rightarrow> unit \<times> ('r, 'm) plugin" where
  "batch_ii_push_record p current_interface in_record =
     ((), accumulate_record current_interface in_record p)"

fun ii_push_record_func ::
  "mode \<Rightarrow> ('r, 'm) plugin \<Rightarrow> nat \<Rightarrow> 'r \<Rightarrow> unit \<times> ('r, 'm) plugin" where
  "ii_push_record_func Batch = batch_ii_push_record"
| "ii_push_record_func Stream = stream_ii_push_record"
| "ii_push_record_func Source = (\<lambda>p i r. ((), p))"

fun ii_close_func :: "mode \<Rightarrow> ('r, 'm) plugin \<Rightarrow> unit \<times> ('r, 'm) plugin" where
  "ii_close_func Batch = batch_ii_close"
| "ii_close_func Stream = (\<lambda>p. ((), p))"
| "ii_close_func Source = (\<lambda>p. ((), p))"

fun pi_push_all_records_func ::
  "mode \<Rightarrow> ('r, 'm) plugin \<Rightarrow> int \<Rightarrow> unit \<times> ('r, 'm) plugin" where
  "pi_push_all_records_func Batch = (\<lambda>p n. ((), p))"
| "pi_push_all_records_func Stream = (\<lambda>p n. ((), p))"
| "pi_push_all_records_func Source = source_pi_push_all_records"

section \<open>Runs: the host engine driving the entry points\<close>

text \<open>
  The callbacks that the user registers for the entry points themselves. As the
  transformation above, each records that it ran and returns; where the wrapper uses
  the answer of the callback, the answer is a parameter.
\<close>

definition user_init :: "bool \<Rightarrow> ('r, 'm) plugin \<Rightarrow> bool \<times> ('r, 'm) plugin" where
  "user_init val p = (val, log UserInit p)"

definition user_add_incoming ::
  "('r, 'm) plugin \<Rightarrow> string \<Rightarrow> string \<Rightarrow> unit \<times> ('r, 'm) plugin" where
  "user_add_incoming p str_type str_name = ((), log (UserAddIncoming str_type str_name) p)"

definition user_add_outgoing ::
  "bool \<Rightarrow> ('r, 'm) plugin \<Rightarrow> string \<Rightarrow> bool \<times> ('r, 'm) plugin" where
  "user_add_outgoing val p str_name = (val, log (UserAddOutgoing str_name) p)"

definition user_close :: "('r, 'm) plugin \<Rightarrow> unit \<times> ('r, 'm) plugin" where
  "user_close p = ((), log UserClose p)"

definition user_ii_init ::
  "bool \<Rightarrow> ('r, 'm) plugin \<Rightarrow> nat \<Rightarrow> 'm \<Rightarrow> bool \<times> ('r, 'm) plugin" where
  "user_ii_init val p i record_info = (val, log (UserIiInit i) p)"

definition user_update_progress ::
  "('r, 'm) plugin \<Rightarrow> nat \<Rightarrow> real \<Rightarrow> unit \<times> ('r, 'm) plugin" where
  "user_update_progress p i d = ((), log (UserUpdateProgress i d) p)"

text \<open>
  One call of the host. Where the wrapper hands over to a user callback whose answer the
  wrapper uses (\<^verbatim>\<open>pi_init\<close>, \<^verbatim>\<open>ii_init\<close>, \<^verbatim>\<open>pi_add_outgoing_connection\<close>), the
  call carries that answer.
\<close>

datatype ('r, 'm) call =
    PiInit string bool
  | PiAddIncomingConnection string string
  | PiAddOutgoingConnection string bool
  | PiPushAllRecords int
  | PiClose bool
  | IiInit nat 'm bool
  | IiPushRecord nat 'r
  | IiUpdateProgress nat real
  | IiClose nat

fun step ::
  "(string \<Rightarrow> error + (string \<times> xml) list) \<Rightarrow> mode \<Rightarrow>
   ('r, 'm) plugin \<Rightarrow> ('r, 'm) call \<Rightarrow> ('r, 'm) plugin" where
  "step parse m p (PiInit config_xml val) =
     state_of (wrap_pi_init parse (user_init val) p config_xml)"
| "step parse m p (PiAddIncomingConnection str_type str_name) =
     state_of (wrap_pi_add_incoming_connection user_add_incoming p str_type str_name)"
| "step parse m p (PiAddOutgoingConnection str_name val) =
     state_of (wrap_pi_add_outgoing_connection (user_add_outgoing val) p str_name)"
| "step parse m p (PiPushAllRecords n) =
     state_of (wrap_push_all_records (pi_push_all_records_func m) p n)"
| "step parse m p (PiClose b) =
     state_of (wrap_pi_close user_close p b)"
| "step parse m p (IiInit i record_info val) =
     state_of (wrap_ii_init (user_ii_init val) p i record_info)"
| "step parse m p (IiPushRecord i in_record) =
     state_of (wrap_ii_push_record (ii_push_record_func m) p i in_record)"
| "step parse m p (IiUpdateProgress i d) =
     state_of (wrap_ii_update_progress user_update_progress p i d)"
| "step parse m p (IiClose i) =
     state_of (wrap_ii_close (ii_close_func m) p i)"

text \<open>
  A run is a sequence of calls; the state after a call that raised is the state at the
  raise, so a host that stops there sees a prefix of the run.
\<close>

fun run ::
  "(string \<Rightarrow> error + (string \<times> xml) list) \<Rightarrow> mode \<Rightarrow>
   ('r, 'm) plugin \<Rightarrow> ('r, 'm) call list \<Rightarrow> ('r, 'm) plugin" where
  "run parse m p [] = p"
| "run parse m p (c # cs) = run parse m (step parse m p c) cs"

section \<open>Vocabulary for statements about runs\<close>

text \<open>The record-flow phase of a run: pushes and closes on the interfaces.\<close>

fun is_flow :: "('r, 'm) call \<Rightarrow> bool" where
  "is_flow (IiPushRecord i r) = True"
| "is_flow (IiClose i) = True"
| "is_flow c = False"

fun is_push :: "('r, 'm) call \<Rightarrow> bool" where
  "is_push (IiPushRecord i r) = True"
| "is_push c = False"

fun is_pi_init :: "('r, 'm) call \<Rightarrow> bool" where
  "is_pi_init (PiInit config_xml val) = True"
| "is_pi_init c = False"



text \<open>
  The buffers in which the record \<open>r\<close> on interface \<open>i\<close> is the only resident record.
\<close>

definition single_slot :: "nat \<Rightarrow> 'r \<Rightarrow> ('r, 'm) plugin \<Rightarrow> (string \<times> 'r list) list" where
  "single_slot i r p =
     map (\<lambda>j. (anchor (interfaces p ! j), if j = i then [r] else []))
       [0..<length (interfaces p)]"

text \<open>How often an event occurs in a trace.\<close>

definition occurrences :: "'r event \<Rightarrow> 'r event list \<Rightarrow> nat" where
  "occurrences e es = length (filter (\<lambda>x. x = e) es)"


text \<open>
  What a record-flow phase \<open>cs\<close> makes of a node that was never initialized: the
  closed interfaces are completed and nothing is added to the trace.
\<close>

definition closed_flowed ::
  "('r, 'm) call list \<Rightarrow> ('r, 'm) plugin \<Rightarrow> ('r, 'm) plugin \<Rightarrow> bool" where
  "closed_flowed cs p q \<longleftrightarrow>
     trace q = trace p \<and> initialized q = initialized p \<and>
     update_only_mode q = update_only_mode p \<and>
     length (interfaces q) = length (interfaces p) \<and>
     (\<forall>j<length (interfaces p).
        completed (interfaces q ! j) = (completed (interfaces p ! j) \<or> IiClose j \<in> set cs))"

text \<open>
  A node in update-only mode that has an interface and none that is completed.
\<close>

definition dry_open :: "('r, 'm) plugin \<Rightarrow> bool" where
  "dry_open p \<longleftrightarrow>
     update_only_mode p \<and> interfaces p \<noteq> [] \<and>
     list_all (\<lambda>x. \<not> completed x) (interfaces p)"

section \<open>Concrete nodes and payloads\<close>

text \<open>
  A stand-in for the parser on three payloads: a document with the root
  \<^verbatim>\<open>Configuration\<close>, a document with another root, and anything else, which is not
  well-formed (as the empty payload).
\<close>

definition example_parse :: "string \<Rightarrow> error + (string \<times> xml) list" where
  "example_parse s =
     (if s = ''<Configuration/>'' then Inr [(''Configuration'', Null)]
      else if s = ''<Other/>'' then Inr [(''Other'', Null)]
      else Inl ExpatError)"

text \<open>
  A node after a successful \<^verbatim>\<open>pi_init\<close>, with one output anchor, and the same node
  in update-only mode.
\<close>

definition node :: "string list \<Rightarrow> (string, string) interface list \<Rightarrow> (string, string) plugin" where
  "node required ifaces =
     \<lparr>initialized = True, update_only_mode = False, workflow_config = Some Null,
      required_input_names = required, output_anchors = [''Output''],
      interfaces = ifaces, trace = []\<rparr>"

definition dry_node ::
  "string list \<Rightarrow> (string, string) interface list \<Rightarrow> (string, string) plugin" where
  "dry_node required ifaces = (node required ifaces)\<lparr>update_only_mode := True\<rparr>"

definition iface :: "string \<Rightarrow> (string, string) interface" where
  "iface a = plugin_interface a"

definition fresh_node :: "(string, string) plugin" where
  "fresh_node = (node [''Input''] [])\<lparr>initialized := False, workflow_config := None\<rparr>"

text \<open>A generation callback that reports failure.\<close>

definition failing_generator ::
  "(string, string) plugin \<Rightarrow> int \<Rightarrow> bool \<times> (string, string) plugin" where
  "failing_generator p n = (False, log (UserPushAllRecords n) p)"

section \<open>Basic facts\<close>

lemma log_fields [simp]:
  "trace (log e p) = trace p @ [e]"
  "initialized (log e p) = initialized p"
  "update_only_mode (log e p) = update_only_mode p"
  "interfaces (log e p) = interfaces p"
  "output_anchors (log e p) = output_anchors p"
  "required_input_names (log e p) = required_input_names p"
  by (simp_all add: log_def)

lemma foldl_push_metadata:
  "foldl (\<lambda>q a. log (PushMetadata a) q) p as = p\<lparr>trace := trace p @ map PushMetadata as\<rparr>"
  by (induction as arbitrary: p) (simp_all add: log_def)

lemma push_metadata_all_eq:
  "push_metadata_all p = p\<lparr>trace := trace p @ map PushMetadata (output_anchors p)\<rparr>"
  by (simp add: push_metadata_all_def foldl_push_metadata)

lemma upd_iface_fields [simp]:
  "trace (upd_iface i f p) = trace p"
  "initialized (upd_iface i f p) = initialized p"
  "update_only_mode (upd_iface i f p) = update_only_mode p"
  "output_anchors (upd_iface i f p) = output_anchors p"
  "required_input_names (upd_iface i f p) = required_input_names p"
  "length (interfaces (upd_iface i f p)) = length (interfaces p)"
  by (simp_all add: upd_iface_def)

lemma upd_iface_nth:
  "j < length (interfaces p) \<Longrightarrow>
   interfaces (upd_iface i f p) ! j = (if j = i then f (interfaces p ! j) else interfaces p ! j)"
  by (simp add: upd_iface_def nth_list_update)

lemma all_inputs_completed_nth:
  "all_inputs_completed p \<longleftrightarrow> (\<forall>j<length (interfaces p). completed (interfaces p ! j))"
  by (simp add: all_inputs_completed_def list_all_length)

lemma run_append: "run parse m p (cs @ ds) = run parse m (run parse m p cs) ds"
  by (induction cs arbitrary: p) simp_all

section \<open>The entry point \<^verbatim>\<open>pi_push_all_records\<close>\<close>

text \<open>
  Claim C1, as amended. On a node that is not in update-only mode and whose set of
  required input names is not empty, every call of \<^verbatim>\<open>pi_push_all_records\<close> logs
  the message at error severity and raises the assertion error; it never returns. The
  test of update-only mode comes first in the source, so the claim does not hold
  regardless of that flag.
\<close>

theorem push_all_records_missing_connections:
  assumes "\<not> update_only_mode p" and "required_input_names p \<noteq> []"
  shows "wrap_push_all_records func p n =
           Raised (AssertionError ''Missing Incoming Connection(s)'')
             (log (LogError ''Missing Incoming Connection(s)'') p)"
  using assms by (simp add: wrap_push_all_records_def)

theorem push_all_records_missing_connections_witness:
  "wrap_push_all_records source_pi_push_all_records (node [''Input''] []) 0 =
     Raised (AssertionError ''Missing Incoming Connection(s)'')
       (log (LogError ''Missing Incoming Connection(s)'') (node [''Input''] []))"
  using push_all_records_missing_connections
          [of "node [''Input''] []" source_pi_push_all_records 0]
  by (simp add: node_def)

text \<open>
  In update-only mode the call returns \<^verbatim>\<open>True\<close> and changes nothing, although an
  input is required.
\<close>

theorem push_all_records_update_only_counterexample:
  "required_input_names (dry_node [''Input''] []) \<noteq> [] \<and>
   wrap_push_all_records source_pi_push_all_records (dry_node [''Input''] []) 0 =
     Returned True (dry_node [''Input''] [])"
  by (simp add: wrap_push_all_records_def dry_node_def node_def)

text \<open>
  Claim C9. When update-only mode is off and no input is required,
  \<^verbatim>\<open>pi_push_all_records\<close> returns \<^verbatim>\<open>True\<close> whatever the user's generation callback
  returns; only the state that the callback leaves is kept.
\<close>

theorem push_all_records_returns_true:
  assumes "\<not> update_only_mode p" and "required_input_names p = []"
  shows "wrap_push_all_records func p n = Returned True (snd (func p n))"
  using assms by (simp add: wrap_push_all_records_def)

theorem push_all_records_returns_true_witness:
  "wrap_push_all_records failing_generator (node [] []) 5 =
     Returned True (log (UserPushAllRecords 5) (node [] []))"
  using push_all_records_returns_true [of "node [] []" failing_generator 5]
  by (simp add: node_def failing_generator_def)

section \<open>The entry point \<^verbatim>\<open>ii_push_record\<close>\<close>

text \<open>
  Claim C8. \<^verbatim>\<open>ii_push_record\<close> returns \<^verbatim>\<open>False\<close> and leaves the node as it is when
  the node is uninitialized or in update-only mode; otherwise it hands the record to the
  strategy of the mode and returns \<^verbatim>\<open>True\<close>; and it returns \<^verbatim>\<open>False\<close> in no other
  case.
\<close>

theorem ii_push_record_guard:
  "(\<not> initialized p \<or> update_only_mode p \<longrightarrow>
      wrap_ii_push_record func p i r = Returned False p) \<and>
   (initialized p \<and> \<not> update_only_mode p \<longrightarrow>
      wrap_ii_push_record func p i r = Returned True (snd (func p i r))) \<and>
   ((\<exists>q. wrap_ii_push_record func p i r = Returned False q) \<longleftrightarrow>
      (\<not> initialized p \<or> update_only_mode p))"
  by (auto simp add: wrap_ii_push_record_def)

theorem ii_push_record_guard_witness:
  "wrap_ii_push_record batch_ii_push_record (dry_node [''Input''] [iface ''Input'']) 0 ''a1'' =
     Returned False (dry_node [''Input''] [iface ''Input'']) \<and>
   wrap_ii_push_record batch_ii_push_record (node [''Input''] [iface ''Input'']) 0 ''a1'' =
     Returned True (node [''Input''] [(iface ''Input'')\<lparr>accumulated := [''a1'']\<rparr>])"
  using ii_push_record_guard
          [of "dry_node [''Input''] [iface ''Input'']" batch_ii_push_record 0 "''a1''"]
        ii_push_record_guard
          [of "node [''Input''] [iface ''Input'']" batch_ii_push_record 0 "''a1''"]
  by (simp add: node_def dry_node_def iface_def plugin_interface_def batch_ii_push_record_def
        accumulate_record_def upd_iface_def)

section \<open>The entry point \<^verbatim>\<open>pi_init\<close>\<close>

text \<open>
  Claim C3, as amended. When the parse of the configuration payload fails (the parser
  raises, or the document has no root \<^verbatim>\<open>Configuration\<close>), \<^verbatim>\<open>pi_init\<close> raises that
  error to its caller: it returns nothing, calls neither the user's callback nor the
  logger, and leaves the flag \<open>initialized\<close> of the node as it was.
\<close>

theorem pi_init_parse_failure_raises:
  "(parse config_xml = Inl e \<longrightarrow>
      wrap_pi_init parse func p config_xml = Raised e (save_output_anchor_refs p)) \<and>
   (parse config_xml = Inr d \<and> map_of d ''Configuration'' = None \<longrightarrow>
      wrap_pi_init parse func p config_xml =
        Raised (KeyError ''Configuration'') (save_output_anchor_refs p)) \<and>
   initialized (save_output_anchor_refs p) = initialized p \<and>
   trace (save_output_anchor_refs p) = trace p @ [SaveOutputAnchorRefs]"
  by (simp add: wrap_pi_init_def save_output_anchor_refs_def log_def)

theorem pi_init_parse_failure_raises_witness:
  "wrap_pi_init example_parse (user_init True) fresh_node '''' =
     Raised ExpatError (save_output_anchor_refs fresh_node) \<and>
   wrap_pi_init example_parse (user_init True) fresh_node ''<Other/>'' =
     Raised (KeyError ''Configuration'') (save_output_anchor_refs fresh_node) \<and>
   initialized (save_output_anchor_refs fresh_node) = False \<and>
   trace (save_output_anchor_refs fresh_node) = [SaveOutputAnchorRefs]"
  using pi_init_parse_failure_raises
          [of example_parse "''''" ExpatError "user_init True" fresh_node]
        pi_init_parse_failure_raises
          [of example_parse "''<Other/>''" _ "user_init True" fresh_node "[(''Other'', Null)]"]
  by (simp add: example_parse_def fresh_node_def node_def)

text \<open>
  On the empty payload the call does not return failure: the parser's error leaves
  \<^verbatim>\<open>pi_init\<close>, and the trace holds no entry of the logger.
\<close>

theorem pi_init_parse_failure_counterexample:
  "wrap_pi_init example_parse (user_init True) fresh_node '''' =
     Raised ExpatError (log SaveOutputAnchorRefs fresh_node) \<and>
   trace (log SaveOutputAnchorRefs fresh_node) = [SaveOutputAnchorRefs]"
  by (simp add: wrap_pi_init_def example_parse_def save_output_anchor_refs_def log_def
        fresh_node_def node_def)

section \<open>Batch mode\<close>













section \<open>Stream mode\<close>

lemmas eval_defs =
  wrap_ii_push_record_def wrap_ii_close_def wrap_ii_init_def wrap_pi_close_def
  wrap_push_all_records_def wrap_pi_init_def wrap_pi_add_incoming_connection_def
  wrap_pi_add_outgoing_connection_def wrap_ii_update_progress_def
  stream_ii_push_record_def batch_ii_close_def batch_ii_push_record_def
  source_pi_push_all_records_def build_metadata_def user_build_metadata_def
  user_process_data_def push_metadata_all_def push_all_output_records_def
  close_all_outputs_def save_output_anchor_refs_def update_progress_def
  user_init_def user_add_incoming_def user_add_outgoing_def user_close_def
  user_ii_init_def user_update_progress_def save_interface_def
  all_inputs_completed_def all_required_inputs_initialized_def
  visible_def accumulate_record_def clear_accumulated_records_def upd_iface_def log_def
  node_def dry_node_def fresh_node_def iface_def plugin_interface_def example_parse_def

lemma stream_push_state:
  assumes "initialized p" "\<not> update_only_mode p"
  shows "state_of (wrap_ii_push_record stream_ii_push_record p i r) =
           (accumulate_record i r (clear_accumulated_records p))
             \<lparr>trace := trace p @ [BuildMetadata,
                 ProcessData (visible (accumulate_record i r (clear_accumulated_records p)))] @
                 map PushMetadata (output_anchors p) @ [PushAllOutputRecords]\<rparr>"
  using assms
  by (simp add: wrap_ii_push_record_def stream_ii_push_record_def build_metadata_def
        user_build_metadata_def user_process_data_def push_metadata_all_eq
        push_all_output_records_def visible_def accumulate_record_def
        clear_accumulated_records_def upd_iface_def log_def)

lemma cleared_fields [simp]:
  "initialized (accumulate_record i r (clear_accumulated_records p)) = initialized p"
  "update_only_mode (accumulate_record i r (clear_accumulated_records p)) = update_only_mode p"
  "output_anchors (accumulate_record i r (clear_accumulated_records p)) = output_anchors p"
  "length (interfaces (accumulate_record i r (clear_accumulated_records p))) =
     length (interfaces p)"
  by (simp_all add: accumulate_record_def clear_accumulated_records_def upd_iface_def)

lemma cleared_nth:
  assumes "j < length (interfaces p)"
  shows "interfaces (accumulate_record i r (clear_accumulated_records p)) ! j =
           (interfaces p ! j)\<lparr>accumulated := (if j = i then [r] else [])\<rparr>"
  using assms
  by (simp add: accumulate_record_def clear_accumulated_records_def upd_iface_def
        nth_list_update)

lemma cleared_visible:
  "visible (accumulate_record i r (clear_accumulated_records p)) = single_slot i r p"
  unfolding visible_def single_slot_def
  by (intro nth_equalityI) (simp_all add: cleared_nth)

lemma concat_one_slot:
  "concat (map (\<lambda>j. if j = i then [r] else []) [0..<n]) = (if i < n then [r] else [])"
  by (induction n) auto

lemma single_slot_resident:
  assumes "i < length (interfaces p)"
  shows "concat (map snd (single_slot i r p)) = [r]"
  using assms concat_one_slot [of i r "length (interfaces p)"]
  by (simp add: single_slot_def o_def)

text \<open>
  Claim C5. In stream mode, a push of the record \<open>r\<close> on interface \<open>i\<close> of an initialized
  node in normal execution returns \<^verbatim>\<open>True\<close>; it empties the buffer of every interface
  and then puts \<open>r\<close> alone into the buffer of \<open>i\<close>; it calls the metadata hook and then
  the user's transformation once, which sees \<open>r\<close> as the only resident record of the
  node, then pushes the metadata to every output anchor and flushes the output.
\<close>

theorem stream_single_slot:
  assumes "initialized p" and "\<not> update_only_mode p" and "i < length (interfaces p)"
  shows "wrap_ii_push_record stream_ii_push_record p i r =
           Returned True (step parse Stream p (IiPushRecord i r)) \<and>
         trace (step parse Stream p (IiPushRecord i r)) =
           trace p @ [BuildMetadata, ProcessData (single_slot i r p)] @
           map PushMetadata (output_anchors p) @ [PushAllOutputRecords] \<and>
         concat (map snd (single_slot i r p)) = [r] \<and>
         length (interfaces (step parse Stream p (IiPushRecord i r))) =
           length (interfaces p) \<and>
         (\<forall>j<length (interfaces p).
            accumulated (interfaces (step parse Stream p (IiPushRecord i r)) ! j) =
              (if j = i then [r] else []))"
proof (intro conjI allI impI)
  note st = stream_push_state [OF assms(1,2)]
  show "wrap_ii_push_record stream_ii_push_record p i r =
          Returned True (step parse Stream p (IiPushRecord i r))"
    using assms(1,2) by (simp add: wrap_ii_push_record_def)
  show "trace (step parse Stream p (IiPushRecord i r)) =
          trace p @ [BuildMetadata, ProcessData (single_slot i r p)] @
          map PushMetadata (output_anchors p) @ [PushAllOutputRecords]"
    by (simp add: st cleared_visible)
  show "concat (map snd (single_slot i r p)) = [r]"
    using assms(3) by (rule single_slot_resident)
  show "length (interfaces (step parse Stream p (IiPushRecord i r))) = length (interfaces p)"
    by (simp add: st)
  show "accumulated (interfaces (step parse Stream p (IiPushRecord i r)) ! j) =
          (if j = i then [r] else [])" if "j < length (interfaces p)" for j
    using that by (simp add: st cleared_nth)
qed

theorem stream_single_slot_witness:
  "trace (step example_parse Stream
            (node [''A'', ''B''] [(iface ''A'')\<lparr>accumulated := [''a1'']\<rparr>, iface ''B''])
            (IiPushRecord 1 ''b1'')) =
     [BuildMetadata, ProcessData [(''A'', []), (''B'', [''b1''])],
      PushMetadata ''Output'', PushAllOutputRecords] \<and>
   map accumulated (interfaces (step example_parse Stream
            (node [''A'', ''B''] [(iface ''A'')\<lparr>accumulated := [''a1'']\<rparr>, iface ''B''])
            (IiPushRecord 1 ''b1''))) = [[], [''b1'']]"
proof -
  let ?p = "node [''A'', ''B''] [(iface ''A'')\<lparr>accumulated := [''a1'']\<rparr>, iface ''B'']"
  have p: "initialized ?p" "\<not> update_only_mode ?p" "1 < length (interfaces ?p)"
    by (simp_all add: node_def)
  have s: "single_slot 1 ''b1'' ?p = [(''A'', []), (''B'', [''b1''])]"
    by (simp add: single_slot_def node_def iface_def plugin_interface_def
          upt_conv_Cons numeral_2_eq_2)
  have t: "trace ?p = []" "output_anchors ?p = [''Output'']"
    by (simp_all add: node_def)
  have "trace (step example_parse Stream ?p (IiPushRecord 1 ''b1'')) =
     [BuildMetadata, ProcessData [(''A'', []), (''B'', [''b1''])],
      PushMetadata ''Output'', PushAllOutputRecords]"
    using stream_single_slot [OF p, of "''b1''" example_parse] s t by simp
  moreover have "map accumulated (interfaces (step example_parse Stream ?p
            (IiPushRecord 1 ''b1''))) = [[], [''b1'']]"
    by (simp add: eval_defs)
  ultimately show ?thesis by simp
qed

lemma occurrences_append [simp]:
  "occurrences e (xs @ ys) = occurrences e xs + occurrences e ys"
  by (simp add: occurrences_def)

lemma occurrences_Cons:
  "occurrences e (x # xs) = (if x = e then Suc (occurrences e xs) else occurrences e xs)"
  by (simp add: occurrences_def)

lemma occurrences_Nil [simp]: "occurrences e [] = 0"
  by (simp add: occurrences_def)

lemma occurrences_push_metadata:
  "(\<And>a. e \<noteq> PushMetadata a) \<Longrightarrow> occurrences e (map PushMetadata as) = 0"
  by (induction as) (auto simp add: occurrences_Cons)

lemma stream_pushes_hook_count:
  assumes "initialized p" "\<not> update_only_mode p" "\<forall>c\<in>set cs. is_push c"
  shows "occurrences BuildMetadata (trace (run parse Stream p cs)) =
           occurrences BuildMetadata (trace p) + length cs"
  using assms
proof (induction cs arbitrary: p)
  case Nil
  then show ?case by simp
next
  case (Cons c cs)
  from Cons.prems(3) obtain i r where c: "c = IiPushRecord i r"
    by (cases c) simp_all
  note st = stream_push_state [OF Cons.prems(1,2)]
  let ?q = "step parse Stream p c"
  have q: "initialized ?q" "\<not> update_only_mode ?q"
    using Cons.prems(1,2) by (simp_all add: c st)
  have t: "occurrences BuildMetadata (trace ?q) = Suc (occurrences BuildMetadata (trace p))"
    by (simp add: c st occurrences_Cons occurrences_push_metadata)
  have "occurrences BuildMetadata (trace (run parse Stream ?q cs)) =
          occurrences BuildMetadata (trace ?q) + length cs"
    using q Cons.prems(3) by (intro Cons.IH) simp_all
  then show ?case
    using t by simp
qed

text \<open>
  Claim C2, as amended. The negotiation procedure has no guard on an earlier
  negotiation: whenever update-only mode is off it calls the user's metadata hook, and
  it does nothing only in update-only mode. In stream mode on an initialized node in
  normal execution every push calls the hook once more, so a run of pushes calls it as
  often as there are pushes.
\<close>

theorem metadata_hook_every_negotiation:
  "(\<not> update_only_mode p \<longrightarrow> trace (build_metadata p) = trace p @ [BuildMetadata]) \<and>
   (update_only_mode p \<longrightarrow> build_metadata p = p) \<and>
   (initialized p \<and> \<not> update_only_mode p \<and> (\<forall>c\<in>set cs. is_push c) \<longrightarrow>
      occurrences BuildMetadata (trace (run parse Stream p cs)) =
        occurrences BuildMetadata (trace p) + length cs)"
  using stream_pushes_hook_count [of p cs parse]
  by (simp add: build_metadata_def user_build_metadata_def)

theorem metadata_hook_every_negotiation_witness:
  "trace (build_metadata
      ((node [''A''] [iface ''A''])\<lparr>trace := [BuildMetadata]\<rparr>)) =
     [BuildMetadata, BuildMetadata] \<and>
   build_metadata (dry_node [''A''] [iface ''A'']) = dry_node [''A''] [iface ''A''] \<and>
   occurrences BuildMetadata
     (trace (run example_parse Stream (node [''A''] [iface ''A''])
        [IiPushRecord 0 ''a1'', IiPushRecord 0 ''a2'', IiPushRecord 0 ''a3''])) = 3"
proof -
  let ?cs = "[IiPushRecord 0 ''a1'', IiPushRecord 0 ''a2'', IiPushRecord 0 ''a3'']
              :: (string, string) call list"
  have "trace (build_metadata ((node [''A''] [iface ''A''])\<lparr>trace := [BuildMetadata]\<rparr>)) =
     [BuildMetadata, BuildMetadata]"
    using metadata_hook_every_negotiation
          [of "(node [''A''] [iface ''A''])\<lparr>trace := [BuildMetadata]\<rparr>" "[]" example_parse]
    by (simp add: node_def)
  moreover have "build_metadata (dry_node [''A''] [iface ''A'']) = dry_node [''A''] [iface ''A'']"
    using metadata_hook_every_negotiation
          [of "dry_node [''A''] [iface ''A'']" "[]" example_parse]
    by (simp add: node_def dry_node_def)
  moreover have "initialized (node [''A''] [iface ''A'']) \<and>
      \<not> update_only_mode (node [''A''] [iface ''A'']) \<and> (\<forall>c\<in>set ?cs. is_push c)"
    by (simp add: node_def)
  then have "occurrences BuildMetadata
     (trace (run example_parse Stream (node [''A''] [iface ''A'']) ?cs)) =
     occurrences BuildMetadata (trace (node [''A''] [iface ''A''])) + length ?cs"
    using metadata_hook_every_negotiation [of "node [''A''] [iface ''A'']" ?cs example_parse]
    by blast
  then have "occurrences BuildMetadata
     (trace (run example_parse Stream (node [''A''] [iface ''A'']) ?cs)) = 3"
    by (simp add: node_def)
  ultimately show ?thesis by blast
qed

text \<open>
  Two pushes on a stream node in normal execution: the metadata hook runs twice in the
  run.
\<close>

theorem metadata_hook_twice_counterexample:
  "occurrences BuildMetadata
     (trace (run example_parse Stream (node [''A''] [iface ''A''])
        [IiPushRecord 0 ''a1'', IiPushRecord 0 ''a2''])) = 2"
  by (simp add: eval_defs occurrences_Cons)

section \<open>Update-only mode\<close>

lemma all_required_inputs_initialized_log [simp]:
  "all_required_inputs_initialized (log e p) = all_required_inputs_initialized p"
  by (simp add: all_required_inputs_initialized_def)

lemma ii_init_success_state:
  "state_of (wrap_ii_init (user_ii_init True) p i info) =
     (let q = log (UserIiInit i)
                (upd_iface i (\<lambda>x. x\<lparr>record_info_in := Some info, ii_initialized := True\<rparr>) p)
      in if update_only_mode p \<and> all_required_inputs_initialized q
         then q\<lparr>trace := trace q @ BuildMetadata # map PushMetadata (output_anchors p)\<rparr>
         else q)"
  by (simp add: wrap_ii_init_def user_ii_init_def Let_def user_build_metadata_def
        push_metadata_all_eq log_def all_required_inputs_initialized_def)

text \<open>
  Claim C6, as amended. In update-only mode neither \<^verbatim>\<open>ii_push_record\<close> nor
  \<^verbatim>\<open>pi_push_all_records\<close> calls the user's transformation or changes the node. The
  metadata hook runs at every successful \<^verbatim>\<open>ii_init\<close> after which all interfaces of
  required anchors are initialized, each time followed by the metadata push to every
  output anchor, and at no other \<^verbatim>\<open>ii_init\<close>; nothing limits it to one call in a run.
\<close>

theorem update_only_metadata_trigger:
  "(update_only_mode p \<longrightarrow>
      wrap_ii_push_record func p i r = Returned False p \<and>
      wrap_push_all_records gen p n = Returned True p) \<and>
   (update_only_mode p \<and>
    all_required_inputs_initialized
      (upd_iface i (\<lambda>x. x\<lparr>record_info_in := Some info, ii_initialized := True\<rparr>) p) \<longrightarrow>
      trace (step parse m p (IiInit i info True)) =
        trace p @ [UserIiInit i, BuildMetadata] @ map PushMetadata (output_anchors p)) \<and>
   (update_only_mode p \<and>
    \<not> all_required_inputs_initialized
      (upd_iface i (\<lambda>x. x\<lparr>record_info_in := Some info, ii_initialized := True\<rparr>) p) \<longrightarrow>
      trace (step parse m p (IiInit i info True)) = trace p @ [UserIiInit i])"
  by (simp add: wrap_ii_push_record_def wrap_push_all_records_def ii_init_success_state
        Let_def)

theorem update_only_metadata_trigger_witness:
  "wrap_ii_push_record stream_ii_push_record (dry_node [''A'', ''B''] [iface ''A'', iface ''B''])
       0 ''a1'' =
     Returned False (dry_node [''A'', ''B''] [iface ''A'', iface ''B'']) \<and>
   wrap_push_all_records source_pi_push_all_records
       (dry_node [''A'', ''B''] [iface ''A'', iface ''B'']) 0 =
     Returned True (dry_node [''A'', ''B''] [iface ''A'', iface ''B'']) \<and>
   trace (step example_parse Batch (dry_node [''A'', ''B''] [iface ''A'', iface ''B''])
            (IiInit 0 ''schema'' True)) = [UserIiInit 0] \<and>
   trace (step example_parse Batch
            (dry_node [''A'', ''B''] [(iface ''A'')\<lparr>ii_initialized := True\<rparr>, iface ''B''])
            (IiInit 1 ''schema'' True)) =
     [UserIiInit 1, BuildMetadata, PushMetadata ''Output'']"
proof -
  let ?p = "dry_node [''A'', ''B''] [iface ''A'', iface ''B'']"
  let ?q = "dry_node [''A'', ''B''] [(iface ''A'')\<lparr>ii_initialized := True\<rparr>, iface ''B'']"
  have "wrap_ii_push_record stream_ii_push_record ?p 0 ''a1'' = Returned False ?p \<and>
        wrap_push_all_records source_pi_push_all_records ?p 0 = Returned True ?p"
    using update_only_metadata_trigger
            [of ?p stream_ii_push_record 0 "''a1''" source_pi_push_all_records 0]
    by (simp add: dry_node_def node_def)
  moreover have "trace (step example_parse Batch ?p (IiInit 0 ''schema'' True)) = [UserIiInit 0]"
    using update_only_metadata_trigger
            [of ?p stream_ii_push_record 0 "''a1''" source_pi_push_all_records 0 "''schema''"
                example_parse Batch]
    by (simp add: dry_node_def node_def iface_def plugin_interface_def upd_iface_def
          all_required_inputs_initialized_def)
  moreover have "trace (step example_parse Batch ?q (IiInit 1 ''schema'' True)) =
     [UserIiInit 1, BuildMetadata, PushMetadata ''Output'']"
    using update_only_metadata_trigger
            [of ?q stream_ii_push_record 1 "''a1''" source_pi_push_all_records 0 "''schema''"
                example_parse Batch]
    by (simp add: dry_node_def node_def iface_def plugin_interface_def upd_iface_def
          all_required_inputs_initialized_def)
  ultimately show ?thesis by blast
qed

text \<open>
  A node in update-only mode with a required anchor \<^verbatim>\<open>A\<close> and an optional anchor
  \<^verbatim>\<open>B\<close>: the metadata hook runs at the init of the interface on \<^verbatim>\<open>A\<close> and again at
  the init of the interface on \<^verbatim>\<open>B\<close>.
\<close>

theorem update_only_hook_twice_counterexample:
  "trace (run example_parse Batch (dry_node [''A''] [iface ''A'', iface ''B''])
            [IiInit 0 ''schema'' True, IiInit 1 ''schema'' True]) =
     [UserIiInit 0, BuildMetadata, PushMetadata ''Output'',
      UserIiInit 1, BuildMetadata, PushMetadata ''Output''] \<and>
   occurrences BuildMetadata
     (trace (run example_parse Batch (dry_node [''A''] [iface ''A'', iface ''B''])
               [IiInit 0 ''schema'' True, IiInit 1 ''schema'' True])) = 2"
  by (simp add: eval_defs occurrences_Cons)

section \<open>A failed interface init\<close>

lemma step_keeps_uninitialized:
  assumes "\<not> initialized p" and "\<not> is_pi_init c"
  shows "\<not> initialized (step parse m p c)"
proof (cases c)
  case (PiInit config_xml val)
  then show ?thesis using assms(2) by simp
next
  case (PiAddIncomingConnection str_type str_name)
  then show ?thesis
    using assms(1)
    by (simp add: wrap_pi_add_incoming_connection_def user_add_incoming_def save_interface_def)
next
  case (PiAddOutgoingConnection str_name val)
  then show ?thesis
    using assms(1) by (simp add: wrap_pi_add_outgoing_connection_def user_add_outgoing_def)
next
  case (PiPushAllRecords n)
  then show ?thesis
    using assms(1)
    by (cases m)
      (simp_all add: wrap_push_all_records_def source_pi_push_all_records_def
         build_metadata_def user_build_metadata_def user_process_data_def
         push_metadata_all_eq push_all_output_records_def)
next
  case (PiClose b)
  then show ?thesis
    using assms(1) by (simp add: wrap_pi_close_def user_close_def close_all_outputs_def)
next
  case (IiInit i info val)
  then show ?thesis
    using assms(1)
    by (simp add: wrap_ii_init_def user_ii_init_def user_build_metadata_def
          push_metadata_all_eq Let_def)
next
  case (IiPushRecord i r)
  then show ?thesis
    using assms(1) by (simp add: wrap_ii_push_record_def)
next
  case (IiUpdateProgress i d)
  then show ?thesis
    using assms(1)
    by (simp add: wrap_ii_update_progress_def user_update_progress_def update_progress_def)
next
  case (IiClose i)
  then show ?thesis
    using assms(1) by (cases m) (simp_all add: wrap_ii_close_def batch_ii_close_def)
qed

lemma run_keeps_uninitialized:
  assumes "\<not> initialized p" and "\<forall>c\<in>set cs. \<not> is_pi_init c"
  shows "\<not> initialized (run parse m p cs)"
  using assms
proof (induction cs arbitrary: p)
  case Nil
  then show ?case by simp
next
  case (Cons c cs)
  have "\<not> initialized (step parse m p c)"
    using Cons.prems by (intro step_keeps_uninitialized) simp_all
  then have "\<not> initialized (run parse m (step parse m p c) cs)"
    using Cons.prems(2) by (intro Cons.IH) simp_all
  then show ?case by simp
qed

lemma uninit_step_push:
  assumes "\<not> initialized p"
  shows "step parse m p (IiPushRecord j r) = p"
  using assms by (simp add: wrap_ii_push_record_def)

lemma uninit_step_close:
  assumes "\<not> initialized p" "\<not> update_only_mode p"
  shows "step parse m p (IiClose j) = upd_iface j (\<lambda>x. x\<lparr>completed := True\<rparr>) p"
  using assms by (cases m) (simp_all add: wrap_ii_close_def batch_ii_close_def)

lemma closed_flowed_trans:
  assumes "closed_flowed [c] p q" and "closed_flowed cs q s"
  shows "closed_flowed (c # cs) p s"
proof -
  have len: "length (interfaces q) = length (interfaces p)"
    using assms(1) by (simp add: closed_flowed_def)
  have "completed (interfaces s ! j) = (completed (interfaces p ! j) \<or> IiClose j \<in> set (c # cs))"
    if j: "j < length (interfaces p)" for j
  proof -
    have "completed (interfaces q ! j) = (completed (interfaces p ! j) \<or> IiClose j \<in> set [c])"
      using assms(1) j by (simp add: closed_flowed_def)
    moreover have "completed (interfaces s ! j) = (completed (interfaces q ! j) \<or> IiClose j \<in> set cs)"
      using assms(2) j len by (simp add: closed_flowed_def)
    ultimately show ?thesis by auto
  qed
  moreover have "trace s = trace p" "initialized s = initialized p"
    "update_only_mode s = update_only_mode p" "length (interfaces s) = length (interfaces p)"
    using assms by (simp_all add: closed_flowed_def)
  ultimately show ?thesis
    by (simp add: closed_flowed_def)
qed

lemma uninit_flow:
  assumes "\<not> initialized p" "\<not> update_only_mode p" and "\<forall>c\<in>set cs. is_flow c"
  shows "closed_flowed cs p (run parse m p cs)"
  using assms
proof (induction cs arbitrary: p)
  case Nil
  then show ?case by (simp add: closed_flowed_def)
next
  case (Cons c cs)
  have flow: "is_flow c" and rest: "\<forall>c\<in>set cs. is_flow c"
    using Cons.prems(3) by simp_all
  have one: "closed_flowed [c] p (step parse m p c)"
  proof (cases c)
    case (IiPushRecord j r)
    show ?thesis
      unfolding IiPushRecord uninit_step_push [OF Cons.prems(1)]
      by (simp add: closed_flowed_def)
  next
    case (IiClose j)
    show ?thesis
      unfolding IiClose uninit_step_close [OF Cons.prems(1,2)]
      by (auto simp add: closed_flowed_def upd_iface_nth)
  qed (use flow in simp_all)
  let ?q = "step parse m p c"
  have q: "\<not> initialized ?q" "\<not> update_only_mode ?q"
    using one Cons.prems(1,2) by (simp_all add: closed_flowed_def)
  have "closed_flowed cs ?q (run parse m ?q cs)"
    using q rest by (rule Cons.IH)
  with one have "closed_flowed (c # cs) p (run parse m ?q cs)"
    by (rule closed_flowed_trans)
  then show ?case by simp
qed

lemma uninit_pi_close:
  assumes "\<not> initialized p" "\<not> update_only_mode p" and "\<forall>c\<in>set cs. is_flow c"
    and "\<forall>j<length (interfaces p). completed (interfaces p ! j) \<or> IiClose j \<in> set cs"
  shows "trace (run parse m p (cs @ [PiClose b])) = trace p @ [UserClose, CloseAllOutputs]"
proof -
  let ?q = "run parse m p cs"
  have fl: "closed_flowed cs p ?q"
    using assms(1-3) by (rule uninit_flow)
  then have len: "length (interfaces ?q) = length (interfaces p)" and tr: "trace ?q = trace p"
    by (simp_all add: closed_flowed_def)
  have "completed (interfaces ?q ! j)" if "j < length (interfaces ?q)" for j
    using fl that assms(4) len by (simp add: closed_flowed_def)
  then have "all_inputs_completed ?q"
    by (simp add: all_inputs_completed_nth)
  then show ?thesis
    by (simp add: run_append wrap_pi_close_def user_close_def close_all_outputs_def tr)
qed

lemma ii_init_failure_state:
  "wrap_ii_init (user_ii_init False) p i info =
     Returned False
       (upd_iface i (\<lambda>x. x\<lparr>ii_initialized := False\<rparr>)
          ((log (UserIiInit i)
             (upd_iface i (\<lambda>x. x\<lparr>record_info_in := Some info, ii_initialized := True\<rparr>) p))
           \<lparr>initialized := False\<rparr>))"
  by (simp add: wrap_ii_init_def user_ii_init_def)

text \<open>
  Claim C7, as amended. When the init hook of an interface returns false,
  \<^verbatim>\<open>ii_init\<close> returns \<^verbatim>\<open>False\<close> and clears the flag \<open>initialized\<close> of the interface
  and of the node. On a node whose flag is cleared, whatever calls other than
  \<^verbatim>\<open>pi_init\<close> follow, the flag stays cleared and every \<^verbatim>\<open>ii_push_record\<close> returns
  \<^verbatim>\<open>False\<close> without touching the node, so no push reaches the user's transformation.
  In normal execution, once every interface has closed, \<^verbatim>\<open>pi_close\<close> calls the user's
  close callback and closes all outputs, and the record-flow phase before it has added
  nothing to the trace: no transformation ran.
\<close>

theorem failed_ii_init_isolation:
  "(i < length (interfaces p) \<longrightarrow>
      wrap_ii_init (user_ii_init False) p i info =
        Returned False (step parse m p (IiInit i info False)) \<and>
      \<not> initialized (step parse m p (IiInit i info False)) \<and>
      \<not> ii_initialized (interfaces (step parse m p (IiInit i info False)) ! i)) \<and>
   (\<not> initialized p \<and> (\<forall>c\<in>set cs. \<not> is_pi_init c) \<longrightarrow>
      \<not> initialized (run parse m p cs) \<and>
      wrap_ii_push_record (ii_push_record_func m) (run parse m p cs) j r =
        Returned False (run parse m p cs)) \<and>
   (\<not> initialized p \<and> \<not> update_only_mode p \<and> (\<forall>c\<in>set cs. is_flow c) \<and>
    (\<forall>j<length (interfaces p). completed (interfaces p ! j) \<or> IiClose j \<in> set cs) \<longrightarrow>
      trace (run parse m p cs) = trace p \<and>
      trace (run parse m p (cs @ [PiClose b])) = trace p @ [UserClose, CloseAllOutputs])"
proof (intro conjI impI)
  assume i: "i < length (interfaces p)"
  show "wrap_ii_init (user_ii_init False) p i info =
        Returned False (step parse m p (IiInit i info False))"
    by (simp add: ii_init_failure_state)
  show "\<not> initialized (step parse m p (IiInit i info False))"
    by (simp add: ii_init_failure_state)
  show "\<not> ii_initialized (interfaces (step parse m p (IiInit i info False)) ! i)"
    using i by (simp add: ii_init_failure_state upd_iface_nth)
next
  assume a: "\<not> initialized p \<and> (\<forall>c\<in>set cs. \<not> is_pi_init c)"
  then show u: "\<not> initialized (run parse m p cs)"
    by (intro run_keeps_uninitialized) simp_all
  then show "wrap_ii_push_record (ii_push_record_func m) (run parse m p cs) j r =
        Returned False (run parse m p cs)"
    by (simp add: wrap_ii_push_record_def)
next
  assume a: "\<not> initialized p \<and> \<not> update_only_mode p \<and> (\<forall>c\<in>set cs. is_flow c) \<and>
    (\<forall>j<length (interfaces p). completed (interfaces p ! j) \<or> IiClose j \<in> set cs)"
  then have "closed_flowed cs p (run parse m p cs)"
    by (intro uninit_flow) simp_all
  then show "trace (run parse m p cs) = trace p"
    by (simp add: closed_flowed_def)
  show "trace (run parse m p (cs @ [PiClose b])) = trace p @ [UserClose, CloseAllOutputs]"
    using a by (intro uninit_pi_close) simp_all
qed

theorem failed_ii_init_isolation_witness:
  "wrap_ii_init (user_ii_init False) (node [''A'', ''B''] [iface ''A'', iface ''B'']) 0 ''schema'' =
     Returned False
       (step example_parse Batch (node [''A'', ''B''] [iface ''A'', iface ''B''])
          (IiInit 0 ''schema'' False)) \<and>
   initialized (step example_parse Batch (node [''A'', ''B''] [iface ''A'', iface ''B''])
          (IiInit 0 ''schema'' False)) = False \<and>
   wrap_ii_push_record (ii_push_record_func Stream)
       (run example_parse Stream
          ((node [''A'', ''B''] [iface ''A'', iface ''B''])\<lparr>initialized := False\<rparr>)
          [IiInit 1 ''schema'' True, IiPushRecord 0 ''a1''])
       1 ''b1'' =
     Returned False
       (run example_parse Stream
          ((node [''A'', ''B''] [iface ''A'', iface ''B''])\<lparr>initialized := False\<rparr>)
          [IiInit 1 ''schema'' True, IiPushRecord 0 ''a1'']) \<and>
   trace (run example_parse Batch
            ((node [''A'', ''B''] [iface ''A'', iface ''B''])\<lparr>initialized := False\<rparr>)
            ([IiPushRecord 0 ''a1'', IiClose 0, IiPushRecord 1 ''b1'', IiClose 1] @
             [PiClose False])) =
     [UserClose, CloseAllOutputs]"
proof -
  let ?p = "node [''A'', ''B''] [iface ''A'', iface ''B'']"
  let ?u = "?p\<lparr>initialized := False\<rparr>"
  let ?cs = "[IiInit 1 ''schema'' True, IiPushRecord 0 ''a1''] :: (string, string) call list"
  let ?ds = "[IiPushRecord 0 ''a1'', IiClose 0, IiPushRecord 1 ''b1'', IiClose 1]
               :: (string, string) call list"
  have one: "wrap_ii_init (user_ii_init False) ?p 0 ''schema'' =
        Returned False (step example_parse Batch ?p (IiInit 0 ''schema'' False)) \<and>
      initialized (step example_parse Batch ?p (IiInit 0 ''schema'' False)) = False"
    using failed_ii_init_isolation [of 0 ?p "''schema''" example_parse Batch "[]"]
    by (simp add: node_def)
  have "\<not> initialized ?u \<and> (\<forall>c\<in>set ?cs. \<not> is_pi_init c)"
    by simp
  then have two: "wrap_ii_push_record (ii_push_record_func Stream)
       (run example_parse Stream ?u ?cs) 1 ''b1'' =
     Returned False (run example_parse Stream ?u ?cs)"
    using failed_ii_init_isolation [of 0 ?u "''schema''" example_parse Stream ?cs 1 "''b1''"]
    by blast
  have len: "length (interfaces ?u) = 2"
    by (simp add: node_def)
  have closes: "\<forall>j<length (interfaces ?u). completed (interfaces ?u ! j) \<or> IiClose j \<in> set ?ds"
    unfolding len by (auto simp add: less_Suc_eq numeral_2_eq_2)
  have "\<not> initialized ?u \<and> \<not> update_only_mode ?u \<and> (\<forall>c\<in>set ?ds. is_flow c) \<and>
      (\<forall>j<length (interfaces ?u). completed (interfaces ?u ! j) \<or> IiClose j \<in> set ?ds)"
    using closes by (simp add: node_def)
  then have "trace (run example_parse Batch ?u (?ds @ [PiClose False])) =
      trace ?u @ [UserClose, CloseAllOutputs]"
    using failed_ii_init_isolation
            [of 0 ?u "''schema''" example_parse Batch ?ds 0 "''a1''" False]
    by blast
  then have three: "trace (run example_parse Batch ?u (?ds @ [PiClose False])) =
      [UserClose, CloseAllOutputs]"
    by (simp add: node_def)
  show ?thesis
    using one two three by blast
qed

text \<open>
  In update-only mode the closes of the interfaces complete nothing: after a failed
  interface init, the close of the interface and \<^verbatim>\<open>pi_close\<close>, no output is closed.
\<close>

theorem failed_ii_init_dry_run_counterexample:
  "trace (run example_parse Batch (dry_node [''A''] [iface ''A''])
            [IiInit 0 ''schema'' False, IiClose 0, PiClose False]) = [UserIiInit 0] \<and>
   occurrences CloseAllOutputs
     (trace (run example_parse Batch (dry_node [''A''] [iface ''A''])
               [IiInit 0 ''schema'' False, IiClose 0, PiClose False])) = 0"
  by (simp add: eval_defs occurrences_Cons)

section \<open>Closing in update-only mode\<close>

lemma upd_iface_open:
  assumes "\<And>x. completed (f x) = completed x"
  shows "list_all (\<lambda>x. \<not> completed x) (interfaces (upd_iface i f p)) =
           list_all (\<lambda>x. \<not> completed x) (interfaces p)"
  using assms by (auto simp add: upd_iface_def list_all_length nth_list_update)

lemma upd_iface_nonempty [simp]:
  "interfaces (upd_iface i f p) = [] \<longleftrightarrow> interfaces p = []"
  by (simp add: upd_iface_def)

lemma upd_iface_interfaces_cong [simp]:
  "interfaces (upd_iface i f (q\<lparr>initialized := b\<rparr>)) = interfaces (upd_iface i f q)"
  "interfaces (upd_iface i f (log e q)) = interfaces (upd_iface i f q)"
  by (simp_all add: upd_iface_def log_def)

lemma dry_open_not_completed:
  assumes "dry_open p"
  shows "\<not> all_inputs_completed p"
proof -
  obtain x xs where "interfaces p = x # xs"
    using assms by (cases "interfaces p") (simp_all add: dry_open_def)
  then show ?thesis
    using assms by (simp add: dry_open_def all_inputs_completed_def)
qed

lemma dry_open_step:
  assumes "dry_open p"
  shows "dry_open (step parse m p c) \<and>
         occurrences UserClose (trace (step parse m p c)) = occurrences UserClose (trace p) \<and>
         occurrences CloseAllOutputs (trace (step parse m p c)) =
           occurrences CloseAllOutputs (trace p)"
proof -
  have u: "update_only_mode p" and ne: "interfaces p \<noteq> []"
    and op: "list_all (\<lambda>x. \<not> completed x) (interfaces p)"
    using assms by (simp_all add: dry_open_def)
  have nc: "\<not> all_inputs_completed p"
    using assms by (rule dry_open_not_completed)
  show ?thesis
  proof (cases c)
    case (PiInit config_xml val)
    then show ?thesis
      using u ne op
      by (simp add: dry_open_def wrap_pi_init_def user_init_def save_output_anchor_refs_def
            Let_def occurrences_Cons split: sum.splits option.splits)
  next
    case (PiAddIncomingConnection str_type str_name)
    then show ?thesis
      using u ne op
      by (simp add: dry_open_def wrap_pi_add_incoming_connection_def user_add_incoming_def
            save_interface_def plugin_interface_def occurrences_Cons)
  next
    case (PiAddOutgoingConnection str_name val)
    then show ?thesis
      using u ne op
      by (simp add: dry_open_def wrap_pi_add_outgoing_connection_def user_add_outgoing_def
            occurrences_Cons)
  next
    case (PiPushAllRecords n)
    then show ?thesis
      using assms u by (simp add: wrap_push_all_records_def)
  next
    case (PiClose b)
    then show ?thesis
      using assms nc by (simp add: wrap_pi_close_def)
  next
    case (IiInit i info val)
    let ?p1 = "upd_iface i (\<lambda>x. x\<lparr>record_info_in := Some info, ii_initialized := True\<rparr>) p"
    have op1: "list_all (\<lambda>x. \<not> completed x) (interfaces ?p1)"
      using op by (simp add: upd_iface_open)
    have op2: "list_all (\<lambda>x. \<not> completed x)
                 (interfaces (upd_iface i (\<lambda>x. x\<lparr>ii_initialized := False\<rparr>) ?p1))"
      using op1 by (simp add: upd_iface_open)
    show ?thesis
      using IiInit u ne op1 op2
      by (simp add: dry_open_def wrap_ii_init_def user_ii_init_def Let_def
            user_build_metadata_def push_metadata_all_eq occurrences_Cons
            occurrences_push_metadata)
  next
    case (IiPushRecord i r)
    then show ?thesis
      using assms u by (simp add: wrap_ii_push_record_def)
  next
    case (IiUpdateProgress i d)
    then show ?thesis
      using u ne op
      by (simp add: dry_open_def wrap_ii_update_progress_def user_update_progress_def
            update_progress_def occurrences_Cons)
  next
    case (IiClose i)
    then show ?thesis
      using assms u by (simp add: wrap_ii_close_def)
  qed
qed

lemma dry_open_run:
  assumes "dry_open p"
  shows "dry_open (run parse m p cs) \<and>
         occurrences UserClose (trace (run parse m p cs)) = occurrences UserClose (trace p) \<and>
         occurrences CloseAllOutputs (trace (run parse m p cs)) =
           occurrences CloseAllOutputs (trace p)"
  using assms
proof (induction cs arbitrary: p)
  case Nil
  then show ?case by simp
next
  case (Cons c cs)
  note one = dry_open_step [OF Cons.prems, of parse m c]
  from one have "dry_open (step parse m p c)" by simp
  from Cons.IH [OF this] one show ?case by simp
qed

text \<open>
  Claim C10. In update-only mode \<^verbatim>\<open>ii_close\<close> returns at once: the interface is not
  marked completed and the user's close hook is not called. So on a node in update-only
  mode with at least one interface, none of them completed, whatever calls the host
  makes, the inputs are never all completed, and \<^verbatim>\<open>pi_close\<close> does nothing: the
  user's close callback is never called and no output is closed.
\<close>

theorem update_only_never_completes:
  "(update_only_mode p \<longrightarrow> wrap_ii_close func p i = Returned None p) \<and>
   (update_only_mode p \<and> interfaces p \<noteq> [] \<and>
    list_all (\<lambda>x. \<not> completed x) (interfaces p) \<longrightarrow>
      \<not> all_inputs_completed (run parse m p cs) \<and>
      wrap_pi_close user_close (run parse m p cs) b = Returned () (run parse m p cs) \<and>
      occurrences UserClose (trace (run parse m p cs)) = occurrences UserClose (trace p) \<and>
      occurrences CloseAllOutputs (trace (run parse m p cs)) =
        occurrences CloseAllOutputs (trace p))"
proof (intro conjI impI)
  assume "update_only_mode p"
  then show "wrap_ii_close func p i = Returned None p"
    by (simp add: wrap_ii_close_def)
next
  assume "update_only_mode p \<and> interfaces p \<noteq> [] \<and>
    list_all (\<lambda>x. \<not> completed x) (interfaces p)"
  then have "dry_open p"
    by (simp add: dry_open_def)
  note r = dry_open_run [OF this, of parse m cs]
  from r show nc: "\<not> all_inputs_completed (run parse m p cs)"
    by (simp add: dry_open_not_completed)
  then show "wrap_pi_close user_close (run parse m p cs) b = Returned () (run parse m p cs)"
    by (simp add: wrap_pi_close_def)
  from r show "occurrences UserClose (trace (run parse m p cs)) = occurrences UserClose (trace p)"
    by simp
  from r show "occurrences CloseAllOutputs (trace (run parse m p cs)) =
        occurrences CloseAllOutputs (trace p)"
    by simp
qed

theorem update_only_never_completes_witness:
  "wrap_ii_close batch_ii_close (dry_node [''A''] [iface ''A'']) 0 =
     Returned None (dry_node [''A''] [iface ''A'']) \<and>
   all_inputs_completed
     (run example_parse Batch (dry_node [''A''] [iface ''A''])
        [IiInit 0 ''schema'' True, IiPushRecord 0 ''a1'', IiClose 0, PiClose False]) = False \<and>
   occurrences CloseAllOutputs
     (trace (run example_parse Batch (dry_node [''A''] [iface ''A''])
        [IiInit 0 ''schema'' True, IiPushRecord 0 ''a1'', IiClose 0, PiClose False])) = 0 \<and>
   occurrences UserClose
     (trace (run example_parse Batch (dry_node [''A''] [iface ''A''])
        [IiInit 0 ''schema'' True, IiPushRecord 0 ''a1'', IiClose 0, PiClose False])) = 0"
proof -
  let ?p = "dry_node [''A''] [iface ''A'']"
  let ?cs = "[IiInit 0 ''schema'' True, IiPushRecord 0 ''a1'', IiClose 0, PiClose False]
               :: (string, string) call list"
  have h: "update_only_mode ?p \<and> interfaces ?p \<noteq> [] \<and>
      list_all (\<lambda>x. \<not> completed x) (interfaces ?p)"
    by (simp add: dry_node_def node_def iface_def plugin_interface_def)
  have t: "trace ?p = []"
    by (simp add: dry_node_def node_def)
  note inst = update_only_never_completes [of ?p batch_ii_close 0 example_parse Batch ?cs False]
  have "wrap_ii_close batch_ii_close ?p 0 = Returned None ?p"
    using inst h by blast
  moreover have "\<not> all_inputs_completed (run example_parse Batch ?p ?cs)"
    using inst h by blast
  moreover have "occurrences CloseAllOutputs (trace (run example_parse Batch ?p ?cs)) =
      occurrences CloseAllOutputs (trace ?p)"
    using inst h by blast
  moreover have "occurrences UserClose (trace (run example_parse Batch ?p ?cs)) =
      occurrences UserClose (trace ?p)"
    using inst h by blast
  ultimately show ?thesis
    by (simp add: t)
qed

end
